theory Spec2Isabelle
  imports Main
begin

section \<open>Data model (lib/types.ts)\<close>

text \<open>
  The interfaces of \<^verbatim>\<open>types.ts\<close> as records. \<^verbatim>\<open>StateUpdates\<close> and \<^verbatim>\<open>GameState\<close>
  both have fields called \<^verbatim>\<open>location\<close> and \<^verbatim>\<open>last_scene\<close>; the fields of the delta
  are written \<open>upd_location\<close> and \<open>upd_last_scene\<close> here. The numbers \<^verbatim>\<open>hp\<close>,
  \<^verbatim>\<open>hp_delta\<close> and \<^verbatim>\<open>turn_count\<close> are integers (inside the range where a JavaScript
  number adds integers exactly).
\<close>

record StateUpdates =
  hp_delta :: int
  inventory_add :: "string list"
  inventory_remove :: "string list"
  upd_location :: string
  upd_last_scene :: string

record DMResponse =
  dm_narration :: string
  scene_summary :: string
  suggested_actions :: "string \<times> string \<times> string"
  state_updates :: StateUpdates
  game_over :: bool

record GameState =
  campaign_seed :: string
  player_name :: string
  player_class :: string
  inventory :: "string list"
  hp :: int
  location :: string
  last_scene :: string
  turn_count :: int

record VoiceResponse =
  audio_base64 :: string
  content_type :: string

section \<open>The backend client (lib/gameClient.ts)\<close>

text \<open>
  A value thrown in JavaScript, as far as the two \<^verbatim>\<open>catch\<close> clauses tell values apart:
  an error of axios (\<^verbatim>\<open>axios.isAxiosError\<close>), any other instance of \<^verbatim>\<open>Error\<close>, each with
  its \<^verbatim>\<open>message\<close>, or a value that is no \<^verbatim>\<open>Error\<close> at all.
\<close>

datatype thrown = AxiosError string | ErrorObject string | NonError

text \<open>How the promise of \<^verbatim>\<open>client.post\<close> settles.\<close>

datatype 'a outcome = Resolved 'a | Rejected thrown

text \<open>
  \<^verbatim>\<open>gameClient.getDMResponse\<close> and \<^verbatim>\<open>gameClient.getVoiceNarration\<close>: the data of the
  response, or a throw (\<open>Inl\<close>). An axios error is wrapped into a new \<^verbatim>\<open>Error\<close> whose
  message has a fixed prefix; anything else is thrown again as it is.
\<close>

definition gameClient_getDMResponse :: "DMResponse outcome \<Rightarrow> thrown + DMResponse" where
  "gameClient_getDMResponse post =
     (case post of
        Resolved data \<Rightarrow> Inr data
      | Rejected e \<Rightarrow>
          (case e of
             AxiosError m \<Rightarrow> Inl (ErrorObject (''Failed to get DM response: '' @ m))
           | ErrorObject m \<Rightarrow> Inl e
           | NonError \<Rightarrow> Inl e))"

definition gameClient_getVoiceNarration :: "VoiceResponse outcome \<Rightarrow> thrown + VoiceResponse" where
  "gameClient_getVoiceNarration post =
     (case post of
        Resolved data \<Rightarrow> Inr data
      | Rejected e \<Rightarrow>
          (case e of
             AxiosError m \<Rightarrow> Inl (ErrorObject (''Failed to get voice narration: '' @ m))
           | ErrorObject m \<Rightarrow> Inl e
           | NonError \<Rightarrow> Inl e))"

section \<open>The game view (app/page.tsx)\<close>

text \<open>
  The requests that leave the view, in the order they are sent: the body of
  \<^verbatim>\<open>POST /api/dm\<close> (a \<^verbatim>\<open>DMRequest\<close>) or of \<^verbatim>\<open>POST /api/voice\<close>.
\<close>

datatype request = DM_Request GameState "string option" | Voice_Request string

text \<open>
  The state of the component \<^verbatim>\<open>Home\<close>: its eight \<^verbatim>\<open>useState\<close> cells, and the log
  \<open>sent\<close> of the requests issued so far (the log is the observable effect of the
  component on the backend, not a cell of the source).
\<close>

record Home =
  gameState :: "GameState option"
  dmResponse :: "DMResponse option"
  loading :: bool
  audioPlaying :: bool
  error :: "string option"
  customAction :: string
  playerName :: string
  playerClass :: string
  sent :: "request list"

definition initial :: Home where
  "initial = \<lparr>gameState = None, dmResponse = None, loading = False, audioPlaying = False,
     error = None, customAction = [], playerName = [], playerClass = ''Rogue'', sent = []\<rparr>"

text \<open>
  What the surroundings answer to one call: how the DM request and the voice request
  settle, and whether \<^verbatim>\<open>audioRef.current\<close> holds the audio element when the voice
  response arrives. The handlers that take a \<open>world\<close> are one call from its beginning to
  its end, with these answers and nothing else happening in between; the calls cut at
  their awaits, with other events between, come further down.
\<close>

record world =
  dm_post :: "DMResponse outcome"
  voice_post :: "VoiceResponse outcome"
  audio_mounted :: bool

text \<open>\<^verbatim>\<open>a || b\<close> on strings: the empty string is the only falsy string.\<close>

definition js_or :: "string \<Rightarrow> string \<Rightarrow> string" where
  "js_or a b = (if a \<noteq> [] then a else b)"

text \<open>\<^verbatim>\<open>err instanceof Error ? err.message : fallback\<close>\<close>

definition catch_message :: "thrown \<Rightarrow> string \<Rightarrow> string" where
  "catch_message err fallback =
     (case err of AxiosError m \<Rightarrow> m | ErrorObject m \<Rightarrow> m | NonError \<Rightarrow> fallback)"

text \<open>The object literal \<^verbatim>\<open>updatedState\<close> of \<^verbatim>\<open>getDMResponse\<close> (``Apply state updates'').\<close>

definition updatedState :: "GameState \<Rightarrow> DMResponse \<Rightarrow> GameState" where
  "updatedState state response =
     state\<lparr>
       hp := max 0 (hp state + hp_delta (state_updates response)),
       inventory :=
         filter (\<lambda>item. item \<notin> set (inventory_remove (state_updates response)))
           (inventory state)
         @ inventory_add (state_updates response),
       location := js_or (upd_location (state_updates response)) (location state),
       last_scene := js_or (upd_last_scene (state_updates response)) (last_scene state),
       turn_count := turn_count state + 1\<rparr>"

definition playNarration :: "world \<Rightarrow> string \<Rightarrow> Home \<Rightarrow> Home" where
  "playNarration w text v =
     (let v1 = v\<lparr>sent := sent v @ [Voice_Request text]\<rparr> in
      case gameClient_getVoiceNarration (voice_post w) of
        Inr voiceResponse \<Rightarrow>
          if audio_mounted w then v1\<lparr>audioPlaying := True\<rparr> else v1
      | Inl err \<Rightarrow>
          v1\<lparr>error := Some (catch_message err ''Failed to generate voice''),
             loading := False\<rparr>)"

definition getDMResponse :: "world \<Rightarrow> GameState \<Rightarrow> string option \<Rightarrow> Home \<Rightarrow> Home" where
  "getDMResponse w state action v =
     (let v1 = v\<lparr>loading := True, error := None,
                 sent := sent v @ [DM_Request state action]\<rparr> in
      case gameClient_getDMResponse (dm_post w) of
        Inr response \<Rightarrow>
          (let v2 = v1\<lparr>dmResponse := Some response,
                       gameState := Some (updatedState state response)\<rparr> in
           if dm_narration response \<noteq> []
           then playNarration w (dm_narration response) v2
           else v2)
      | Inl err \<Rightarrow>
          v1\<lparr>error := Some (catch_message err ''Failed to get DM response''),
             loading := False\<rparr>)"

text \<open>\<^verbatim>\<open>startAdventure\<close>; \<open>seed\<close> is what \<^verbatim>\<open>generateCampaignSeed()\<close> returns.\<close>

definition startAdventure :: "string \<Rightarrow> world \<Rightarrow> Home \<Rightarrow> Home" where
  "startAdventure seed w v =
     (let newState = \<lparr>campaign_seed = seed,
                      player_name = js_or (playerName v) ''Adventurer'',
                      player_class = playerClass v,
                      inventory = [],
                      hp = 20,
                      location = ''Starting Point'',
                      last_scene = [],
                      turn_count = 0\<rparr> in
      getDMResponse w newState None (v\<lparr>gameState := Some newState, error := None\<rparr>))"

definition handleAction :: "world \<Rightarrow> string \<Rightarrow> Home \<Rightarrow> Home" where
  "handleAction w action v =
     (case gameState v of
        None \<Rightarrow> v
      | Some state \<Rightarrow> getDMResponse w state (Some action) (v\<lparr>customAction := []\<rparr>))"

definition skipAudio :: "Home \<Rightarrow> Home" where
  "skipAudio v = v\<lparr>audioPlaying := False, loading := False\<rparr>"

text \<open>The \<^verbatim>\<open>onended\<close> callback that \<^verbatim>\<open>playNarration\<close> installs on the audio element.\<close>

definition onended :: "Home \<Rightarrow> Home" where
  "onended v = v\<lparr>audioPlaying := False, loading := False\<rparr>"

definition resetGame :: "Home \<Rightarrow> Home" where
  "resetGame v = v\<lparr>gameState := None, dmResponse := None, customAction := [],
     error := None, playerName := [], playerClass := ''Rogue''\<rparr>"

subsection \<open>What the rendered view lets happen\<close>

text \<open>
  The events of the view: a click or key press on one of its controls, or the end of the
  audio playback. \<open>ClickStart\<close> carries what \<^verbatim>\<open>generateCampaignSeed()\<close> returns.
\<close>

datatype event =
    ClickStart string
  | ClickSuggested nat
  | PressEnter
  | ClickSend
  | ClickSkip
  | ClickReset
  | ClickDismiss
  | AudioEnded
  | TypeCustomAction string
  | TypePlayerName string
  | SelectPlayerClass string

text \<open>\<^verbatim>\<open>dmResponse && !dmResponse.game_over\<close>: the two action panels are rendered.\<close>

definition actionsRendered :: "Home \<Rightarrow> bool" where
  "actionsRendered v =
     (gameState v \<noteq> None \<and>
      (case dmResponse v of None \<Rightarrow> False | Some r \<Rightarrow> \<not> game_over r))"

text \<open>
  The error panel is rendered: under \<^verbatim>\<open>error\<close> alone in the start form, under
  \<^verbatim>\<open>error && !loading\<close> in the game view. The empty string is falsy.
\<close>

definition errorDisplayed :: "Home \<Rightarrow> bool" where
  "errorDisplayed v =
     (case error v of
        None \<Rightarrow> False
      | Some m \<Rightarrow> if gameState v = None then m \<noteq> [] else m \<noteq> [] \<and> \<not> loading v)"

text \<open>
  \<open>enabled e v\<close>: the control of event \<open>e\<close> is in the tree that \<^verbatim>\<open>Home\<close> returns for
  \<open>v\<close> and its \<^verbatim>\<open>disabled\<close> attribute is false. The start form is returned when
  \<^verbatim>\<open>gameState\<close> is null, the game view otherwise.
\<close>

fun enabled :: "event \<Rightarrow> Home \<Rightarrow> bool" where
  "enabled (ClickStart seed) v = (gameState v = None)"
| "enabled (ClickSuggested idx) v =
     (actionsRendered v \<and> idx < 3 \<and> \<not> (loading v \<or> audioPlaying v))"
| "enabled PressEnter v = (actionsRendered v \<and> \<not> (loading v \<or> audioPlaying v))"
| "enabled ClickSend v =
     (actionsRendered v \<and> \<not> (customAction v = [] \<or> loading v \<or> audioPlaying v))"
| "enabled ClickSkip v = (gameState v \<noteq> None \<and> audioPlaying v)"
| "enabled ClickReset v = (gameState v \<noteq> None)"
| "enabled ClickDismiss v = (gameState v \<noteq> None \<and> errorDisplayed v)"
| "enabled AudioEnded v = audioPlaying v"
| "enabled (TypeCustomAction s) v = (actionsRendered v \<and> \<not> (loading v \<or> audioPlaying v))"
| "enabled (TypePlayerName s) v = (gameState v = None)"
| "enabled (SelectPlayerClass s) v = (gameState v = None)"

text \<open>The action behind the button \<open>idx\<close> of \<^verbatim>\<open>dmResponse.suggested_actions.map(...)\<close>.\<close>

definition suggested :: "DMResponse \<Rightarrow> nat \<Rightarrow> string" where
  "suggested r idx =
     (case suggested_actions r of
        (a0, a1, a2) \<Rightarrow> if idx = 0 then a0 else if idx = 1 then a1 else a2)"

subsection \<open>The handlers, cut at their awaits\<close>

text \<open>
  \<^verbatim>\<open>getDMResponse\<close> and \<^verbatim>\<open>playNarration\<close> are \<^verbatim>\<open>async\<close>: each runs up to its
  \<^verbatim>\<open>await gameClient...\<close> with the event that calls it and goes on when the request
  settles. Until then the view is rendered and takes further events; \<^verbatim>\<open>resetGame\<close>
  cancels nothing, and neither ``New Game'' nor ``Start Adventure'' is disabled while a
  call is pending. The parts before and after each \<^verbatim>\<open>await\<close> are given here one by one;
  \<open>getDMResponse\<close> and \<open>playNarration\<close> above are these parts with nothing between them.
\<close>

definition getDMResponse_call :: "GameState \<Rightarrow> string option \<Rightarrow> Home \<Rightarrow> Home" where
  "getDMResponse_call state action v =
     v\<lparr>loading := True, error := None, sent := sent v @ [DM_Request state action]\<rparr>"

definition playNarration_call :: "string \<Rightarrow> Home \<Rightarrow> Home" where
  "playNarration_call text v = v\<lparr>sent := sent v @ [Voice_Request text]\<rparr>"

text \<open>\<open>mounted\<close>: \<^verbatim>\<open>audioRef.current\<close> holds the audio element when the answer arrives.\<close>

definition playNarration_answer :: "VoiceResponse outcome \<Rightarrow> bool \<Rightarrow> Home \<Rightarrow> Home" where
  "playNarration_answer post mounted v =
     (case gameClient_getVoiceNarration post of
        Inr voiceResponse \<Rightarrow> if mounted then v\<lparr>audioPlaying := True\<rparr> else v
      | Inl err \<Rightarrow>
          v\<lparr>error := Some (catch_message err ''Failed to generate voice''),
            loading := False\<rparr>)"

text \<open>
  The rest of \<^verbatim>\<open>getDMResponse\<close> for the \<open>state\<close> it was called with, on the view as it
  is when the answer arrives; with the view, the text of the voice request it leaves
  pending, if any.
\<close>

definition getDMResponse_answer ::
  "DMResponse outcome \<Rightarrow> GameState \<Rightarrow> Home \<Rightarrow> Home \<times> string option" where
  "getDMResponse_answer post state v =
     (case gameClient_getDMResponse post of
        Inr response \<Rightarrow>
          (let v2 = v\<lparr>dmResponse := Some response,
                      gameState := Some (updatedState state response)\<rparr> in
           if dm_narration response \<noteq> []
           then (playNarration_call (dm_narration response) v2, Some (dm_narration response))
           else (v2, None))
      | Inl err \<Rightarrow>
          (v\<lparr>error := Some (catch_message err ''Failed to get DM response''),
             loading := False\<rparr>, None))"

text \<open>
  \<^verbatim>\<open>startAdventure\<close> and \<^verbatim>\<open>handleAction\<close> up to the \<^verbatim>\<open>await\<close> inside
  \<^verbatim>\<open>getDMResponse\<close>: the view, and the arguments of the call left pending, if any.
\<close>

definition startAdventure_call ::
  "string \<Rightarrow> Home \<Rightarrow> Home \<times> (GameState \<times> string option) option" where
  "startAdventure_call seed v =
     (let newState = \<lparr>campaign_seed = seed,
                      player_name = js_or (playerName v) ''Adventurer'',
                      player_class = playerClass v,
                      inventory = [],
                      hp = 20,
                      location = ''Starting Point'',
                      last_scene = [],
                      turn_count = 0\<rparr> in
      (getDMResponse_call newState None (v\<lparr>gameState := Some newState, error := None\<rparr>),
       Some (newState, None)))"

definition handleAction_call ::
  "string \<Rightarrow> Home \<Rightarrow> Home \<times> (GameState \<times> string option) option" where
  "handleAction_call action v =
     (case gameState v of
        None \<Rightarrow> (v, None)
      | Some state \<Rightarrow>
          (getDMResponse_call state (Some action) (v\<lparr>customAction := []\<rparr>),
           Some (state, Some action)))"

text \<open>The handler each control is wired to, up to its first \<^verbatim>\<open>await\<close>.\<close>

fun press :: "event \<Rightarrow> Home \<Rightarrow> Home \<times> (GameState \<times> string option) option" where
  "press (ClickStart seed) v = startAdventure_call seed v"
| "press (ClickSuggested idx) v =
     (case dmResponse v of
        None \<Rightarrow> (v, None)
      | Some r \<Rightarrow> handleAction_call (suggested r idx) v)"
| "press PressEnter v =
     (if customAction v \<noteq> [] \<and> \<not> loading v \<and> \<not> audioPlaying v
      then handleAction_call (customAction v) v else (v, None))"
| "press ClickSend v =
     (if customAction v \<noteq> [] then handleAction_call (customAction v) v else (v, None))"
| "press ClickSkip v = (skipAudio v, None)"
| "press ClickReset v = (resetGame v, None)"
| "press ClickDismiss v = (v\<lparr>error := None\<rparr>, None)"
| "press AudioEnded v = (onended v, None)"
| "press (TypeCustomAction s) v = (v\<lparr>customAction := s\<rparr>, None)"
| "press (TypePlayerName s) v = (v\<lparr>playerName := s\<rparr>, None)"
| "press (SelectPlayerClass s) v = (v\<lparr>playerClass := s\<rparr>, None)"

subsection \<open>Runs of the view, with calls pending\<close>

text \<open>
  The view together with the calls suspended at an \<^verbatim>\<open>await\<close>: the calls of
  \<^verbatim>\<open>getDMResponse\<close>, each with the \<open>state\<close> and action it was given, and the calls of
  \<^verbatim>\<open>playNarration\<close>, each with its text, oldest first.
\<close>

record Session =
  view :: Home
  awaitingDM :: "(GameState \<times> string option) list"
  awaitingVoice :: "string list"

definition start :: Session where
  "start = \<lparr>view = initial, awaitingDM = [], awaitingVoice = []\<rparr>"

text \<open>
  What can happen next: an event of the view, or one of the pending requests settles
  (the \<open>k\<close>-th pending DM request; the \<open>k\<close>-th pending voice request, with whether the
  audio element is mounted then). Requests settle in any order.
\<close>

datatype occurrence =
    ViewEvent event
  | DMSettles nat "DMResponse outcome"
  | VoiceSettles nat "VoiceResponse outcome" bool

definition dropAt :: "nat \<Rightarrow> 'a list \<Rightarrow> 'a list" where
  "dropAt k xs = take k xs @ drop (Suc k) xs"

text \<open>
  An event changes the view only through a control that is enabled, and runs its handler
  up to the first \<^verbatim>\<open>await\<close>; a request that settles runs the rest of its call on the
  view as it then is.
\<close>

fun step :: "occurrence \<Rightarrow> Session \<Rightarrow> Session" where
  "step (ViewEvent e) \<sigma> =
     (if enabled e (view \<sigma>)
      then (case press e (view \<sigma>) of
              (v', None) \<Rightarrow> \<sigma>\<lparr>view := v'\<rparr>
            | (v', Some call) \<Rightarrow> \<sigma>\<lparr>view := v', awaitingDM := awaitingDM \<sigma> @ [call]\<rparr>)
      else \<sigma>)"
| "step (DMSettles k post) \<sigma> =
     (if k < length (awaitingDM \<sigma>)
      then (case getDMResponse_answer post (fst (awaitingDM \<sigma> ! k)) (view \<sigma>) of
              (v', None) \<Rightarrow> \<sigma>\<lparr>view := v', awaitingDM := dropAt k (awaitingDM \<sigma>)\<rparr>
            | (v', Some text) \<Rightarrow>
                \<sigma>\<lparr>view := v', awaitingDM := dropAt k (awaitingDM \<sigma>),
                  awaitingVoice := awaitingVoice \<sigma> @ [text]\<rparr>)
      else \<sigma>)"
| "step (VoiceSettles k post mounted) \<sigma> =
     (if k < length (awaitingVoice \<sigma>)
      then \<sigma>\<lparr>view := playNarration_answer post mounted (view \<sigma>),
             awaitingVoice := dropAt k (awaitingVoice \<sigma>)\<rparr>
      else \<sigma>)"

fun run :: "occurrence list \<Rightarrow> Session \<Rightarrow> Session" where
  "run [] \<sigma> = \<sigma>"
| "run (e # es) \<sigma> = run es (step e \<sigma>)"

section \<open>The specification's clamp, and example values\<close>

text \<open>The specification's \<^verbatim>\<open>clamp(x, lo, hi)\<close>, in its own words; the source has no such function.\<close>

definition spec_clamp :: "int \<Rightarrow> int \<Rightarrow> int \<Rightarrow> int" where
  "spec_clamp x lo hi = min hi (max lo x)"

definition warrior :: GameState where
  "warrior = \<lparr>campaign_seed = ''k3j9x0q2a'', player_name = ''Aragorn'',
     player_class = ''Warrior'', inventory = [''Sword'', ''Torch''], hp = 20,
     location = ''Forest'', last_scene = ''Entered the forest'', turn_count = 5\<rparr>"

definition shieldUpdates :: StateUpdates where
  "shieldUpdates = \<lparr>hp_delta = 5, inventory_add = [''Shield''],
     inventory_remove = [''Sword''], upd_location = [], upd_last_scene = ''Found a shield''\<rparr>"

definition shieldResponse :: DMResponse where
  "shieldResponse = \<lparr>dm_narration = ''You find a shield.'', scene_summary = ''A quiet cave'',
     suggested_actions = (''Look around'', ''Rest'', ''Leave''),
     state_updates = shieldUpdates, game_over = False\<rparr>"

definition silentResponse :: DMResponse where
  "silentResponse = \<lparr>dm_narration = [], scene_summary = ''A quiet cave'',
     suggested_actions = (''Look around'', ''Rest'', ''Leave''),
     state_updates = shieldUpdates, game_over = False\<rparr>"

definition finalResponse :: DMResponse where
  "finalResponse = \<lparr>dm_narration = ''You fall.'', scene_summary = ''The end'',
     suggested_actions = (''Wait'', ''Wait'', ''Wait''),
     state_updates = \<lparr>hp_delta = - 20, inventory_add = [], inventory_remove = [],
        upd_location = [], upd_last_scene = ''Fell in battle''\<rparr>,
     game_over = True\<rparr>"

definition mp3 :: VoiceResponse where
  "mp3 = \<lparr>audio_base64 = ''SUQz'', content_type = ''audio/mp3''\<rparr>"

definition answers :: "DMResponse outcome \<Rightarrow> VoiceResponse outcome \<Rightarrow> world" where
  "answers d vo = \<lparr>dm_post = d, voice_post = vo, audio_mounted = True\<rparr>"

text \<open>A view in the middle of a game, waiting for the player's action.\<close>

definition inGame :: Home where
  "inGame = \<lparr>gameState = Some warrior, dmResponse = Some shieldResponse, loading = False,
     audioPlaying = False, error = None, customAction = [], playerName = ''Aragorn'',
     playerClass = ''Warrior'', sent = []\<rparr>"

text \<open>
  An adventure begun and given up with ``New Game'' while its first DM request is still
  pending, and a second adventure begun after it: two DM requests are pending.
\<close>

definition abandoned :: "occurrence list" where
  "abandoned = [ViewEvent (TypePlayerName ''Aragorn''), ViewEvent (ClickStart ''k3j9x0q2a''),
     ViewEvent ClickReset,
     ViewEvent (TypePlayerName ''Gimli''), ViewEvent (ClickStart ''seedB'')]"

section \<open>What the handlers do to the view\<close>

lemma playNarration_keeps:
  "gameState (playNarration w text v) = gameState v"
  "dmResponse (playNarration w text v) = dmResponse v"
  by (simp_all add: playNarration_def Let_def split: sum.split)

lemma getDMResponse_resolved:
  assumes "dm_post w = Resolved r"
  shows "gameState (getDMResponse w state action v) = Some (updatedState state r)"
    and "dmResponse (getDMResponse w state action v) = Some r"
  using assms
  by (simp_all add: getDMResponse_def gameClient_getDMResponse_def Let_def playNarration_keeps)

text \<open>A rejected DM request: only \<open>loading\<close>, \<open>error\<close> and the log change.\<close>

lemma getDMResponse_rejected:
  assumes "dm_post w = Rejected t"
  shows "getDMResponse w state action v =
     v\<lparr>loading := False,
       error := Some (case t of AxiosError m \<Rightarrow> ''Failed to get DM response: '' @ m
                      | ErrorObject m \<Rightarrow> m | NonError \<Rightarrow> ''Failed to get DM response''),
       sent := sent v @ [DM_Request state action]\<rparr>"
  using assms
  by (simp add: getDMResponse_def gameClient_getDMResponse_def Let_def catch_message_def
      split: thrown.split)

text \<open>A response without narration: no voice request, and \<open>loading\<close> stays set.\<close>

lemma getDMResponse_silent:
  assumes "dm_post w = Resolved r" "dm_narration r = []"
  shows "getDMResponse w state action v =
     v\<lparr>loading := True, error := None, sent := sent v @ [DM_Request state action],
       dmResponse := Some r, gameState := Some (updatedState state r)\<rparr>"
  using assms by (simp add: getDMResponse_def gameClient_getDMResponse_def Let_def)


lemma getDMResponse_gameState:
  "gameState (getDMResponse w state action v) =
     (case dm_post w of Resolved r \<Rightarrow> Some (updatedState state r) | Rejected t \<Rightarrow> gameState v)"
  by (simp add: getDMResponse_resolved(1) getDMResponse_rejected split: outcome.split)

lemma getDMResponse_dmResponse:
  "dmResponse (getDMResponse w state action v) =
     (case dm_post w of Resolved r \<Rightarrow> Some r | Rejected t \<Rightarrow> dmResponse v)"
  by (simp add: getDMResponse_resolved(2) getDMResponse_rejected split: outcome.split)

lemma startAdventure_gameState: "gameState (startAdventure seed w v) \<noteq> None"
  by (simp add: startAdventure_def Let_def getDMResponse_gameState split: outcome.split)

lemma handleAction_gameState:
  "gameState v = Some s \<Longrightarrow> gameState (handleAction w a v) =
     (case dm_post w of Resolved r \<Rightarrow> Some (updatedState s r) | Rejected t \<Rightarrow> Some s)"
  by (simp add: handleAction_def getDMResponse_gameState split: outcome.split)

text \<open>
  The handlers that take a \<open>world\<close> are their parts in a row: the call, the rest of it
  on the DM answer, and the rest of \<open>playNarration\<close> on the voice answer.
\<close>

lemma getDMResponse_parts:
  "getDMResponse w state action v =
     (case getDMResponse_answer (dm_post w) state (getDMResponse_call state action v) of
        (v', None) \<Rightarrow> v'
      | (v', Some text) \<Rightarrow> playNarration_answer (voice_post w) (audio_mounted w) v')"
  by (simp add: getDMResponse_def getDMResponse_answer_def getDMResponse_call_def
      playNarration_def playNarration_call_def playNarration_answer_def Let_def
      split: sum.split)

lemma startAdventure_parts:
  "startAdventure seed w v =
     (case startAdventure_call seed v of
        (v1, None) \<Rightarrow> v1
      | (v1, Some call) \<Rightarrow>
          (case getDMResponse_answer (dm_post w) (fst call) v1 of
             (v', None) \<Rightarrow> v'
           | (v', Some text) \<Rightarrow> playNarration_answer (voice_post w) (audio_mounted w) v'))"
  by (simp add: startAdventure_def startAdventure_call_def Let_def getDMResponse_parts)

lemma handleAction_parts:
  "handleAction w a v =
     (case handleAction_call a v of
        (v1, None) \<Rightarrow> v1
      | (v1, Some call) \<Rightarrow>
          (case getDMResponse_answer (dm_post w) (fst call) v1 of
             (v', None) \<Rightarrow> v'
           | (v', Some text) \<Rightarrow> playNarration_answer (voice_post w) (audio_mounted w) v'))"
  by (simp add: handleAction_def handleAction_call_def getDMResponse_parts
      split: option.split)

section \<open>Applying the state updates\<close>

text \<open>
  What the update does to \<open>hp\<close>: the sum, held at 0 from below and not bounded from
  above. It agrees with the specification's clamp as long as the sum stays at or below 20.
\<close>

lemma updatedState_hp:
  "hp (updatedState s r) = max 0 (hp s + hp_delta (state_updates r))"
  by (simp add: updatedState_def)

lemma updatedState_hp_clamped_below_20:
  "hp s + hp_delta (state_updates r) \<le> 20 \<Longrightarrow>
     hp (updatedState s r) = spec_clamp (hp s + hp_delta (state_updates r)) 0 20"
  by (simp add: updatedState_def spec_clamp_def)

text \<open>
  C1 (the hp after an update is \<open>clamp(hp + hp_delta, 0, 20)\<close> and never leaves
  \<open>[0, 20]\<close>). The code does not do this: a warrior with 20 hp, inside the range, who
  receives \<open>hp_delta = 5\<close> ends with 25 hp, where the clamp of the specification gives 20.
\<close>

theorem updatedState_hp_above_20:
  "0 \<le> hp warrior \<and> hp warrior \<le> 20 \<and> hp_delta (state_updates shieldResponse) = 5
   \<and> hp (updatedState warrior shieldResponse) = 25
   \<and> spec_clamp (hp warrior + hp_delta (state_updates shieldResponse)) 0 20 = 20"
  by (simp add: updatedState_def warrior_def shieldResponse_def shieldUpdates_def
      spec_clamp_def)

lemma filter_fold_removeAll:
  "filter (\<lambda>x. x \<notin> set rs) xs = fold removeAll rs xs"
proof (induction rs arbitrary: xs)
  case Nil
  then show ?case by simp
next
  case (Cons r rs)
  have "filter (\<lambda>x. x \<notin> set (r # rs)) xs = filter (\<lambda>x. x \<notin> set rs) (removeAll r xs)"
    by (induction xs) auto
  then show ?case using Cons.IH by simp
qed

lemma filter_absent_name:
  "n \<notin> set xs \<Longrightarrow> filter (\<lambda>x. x \<noteq> n \<and> P x) xs = filter P xs"
  by (induction xs) auto

text \<open>
  C3 (inventory). The new inventory is the old one without the members of
  \<open>inventory_remove\<close>, in their old order, followed by \<open>inventory_add\<close> in its order.
  The survivors are also what is left after deleting the names of \<open>inventory_remove\<close>
  one after the other; a name to remove that the inventory does not hold changes
  nothing; and every added item is in the result, whether or not it is also to be removed.
\<close>

theorem updatedState_inventory:
  "inventory (updatedState s r) =
     filter (\<lambda>item. item \<notin> set (inventory_remove (state_updates r))) (inventory s)
     @ inventory_add (state_updates r)
   \<and> inventory (updatedState s r) =
       fold removeAll (inventory_remove (state_updates r)) (inventory s)
       @ inventory_add (state_updates r)
   \<and> (n \<notin> set (inventory s) \<longrightarrow>
        inventory (updatedState s
          (r\<lparr>state_updates := (state_updates r)
               \<lparr>inventory_remove := n # inventory_remove (state_updates r)\<rparr>\<rparr>))
        = inventory (updatedState s r))
   \<and> (x \<in> set (inventory_add (state_updates r)) \<longrightarrow>
        x \<in> set (inventory (updatedState s r)))"
  by (simp add: updatedState_def filter_fold_removeAll [symmetric] filter_absent_name)

theorem updatedState_inventory_example:
  "inventory warrior = [''Sword'', ''Torch'']
   \<and> inventory_remove (state_updates shieldResponse) = [''Sword'']
   \<and> inventory_add (state_updates shieldResponse) = [''Shield'']
   \<and> ''Bow'' \<notin> set (inventory warrior)
   \<and> ''Shield'' \<in> set (inventory_add (state_updates shieldResponse))
   \<and> inventory (updatedState warrior shieldResponse) = [''Torch'', ''Shield'']"
  using updatedState_inventory [of warrior shieldResponse "''Bow''" "''Shield''"]
  by (simp add: warrior_def shieldResponse_def shieldUpdates_def)

text \<open>
  C4 (location and last scene). An empty string in the delta keeps the old value, any
  other string replaces it.
\<close>

theorem updatedState_location_last_scene:
  "location (updatedState s r) =
     (if upd_location (state_updates r) = [] then location s
      else upd_location (state_updates r))
   \<and> last_scene (updatedState s r) =
     (if upd_last_scene (state_updates r) = [] then last_scene s
      else upd_last_scene (state_updates r))"
  by (simp add: updatedState_def js_or_def)

theorem updatedState_location_last_scene_example:
  "upd_location (state_updates shieldResponse) = []
   \<and> location (updatedState warrior shieldResponse) = ''Forest''
   \<and> last_scene (updatedState warrior shieldResponse) = ''Found a shield''"
  using updatedState_location_last_scene [of warrior shieldResponse]
  by (simp add: warrior_def shieldResponse_def shieldUpdates_def)

text \<open>
  C6 (turn count). The update adds exactly 1 to \<open>turn_count\<close>, whatever the delta holds,
  and a DM call that resolves leaves the view with that state: through
  \<open>getDMResponse\<close> for the state it was called with, through \<open>handleAction\<close> for the
  state of the view.
\<close>

theorem turn_count_incremented:
  "turn_count (updatedState s r) = turn_count s + 1
   \<and> (dm_post w = Resolved r \<longrightarrow>
        map_option turn_count (gameState (getDMResponse w s action v))
        = Some (turn_count s + 1))
   \<and> (gameState v = Some s \<and> dm_post w = Resolved r \<longrightarrow>
        map_option turn_count (gameState (handleAction w a v)) = Some (turn_count s + 1))"
  by (simp add: getDMResponse_gameState handleAction_gameState) (simp add: updatedState_def)

theorem turn_count_incremented_example:
  "gameState inGame = Some warrior
   \<and> dm_post (answers (Resolved shieldResponse) (Resolved mp3)) = Resolved shieldResponse
   \<and> turn_count warrior = 5
   \<and> map_option turn_count
       (gameState (handleAction (answers (Resolved shieldResponse) (Resolved mp3))
          ''Rest'' inGame)) = Some 6"
  using turn_count_incremented [of warrior shieldResponse
      "answers (Resolved shieldResponse) (Resolved mp3)" "Some ''Rest''" inGame "''Rest''"]
  by (simp add: inGame_def answers_def warrior_def)

text \<open>
  C10 (no game in progress). With \<open>gameState\<close> null, \<open>handleAction\<close> returns the view as
  it is: no cell changes and nothing is added to the log of requests.
\<close>

theorem handleAction_without_game:
  "gameState v = None \<Longrightarrow> handleAction w action v = v"
  by (simp add: handleAction_def)

theorem handleAction_without_game_example:
  "gameState initial = None
   \<and> handleAction (answers (Resolved shieldResponse) (Resolved mp3)) ''Attack'' initial = initial
   \<and> sent (handleAction (answers (Resolved shieldResponse) (Resolved mp3)) ''Attack'' initial)
       = []"
proof -
  have h: "gameState initial = None" by (simp add: initial_def)
  from handleAction_without_game [OF h] h show ?thesis by (simp add: initial_def)
qed

section \<open>The turn: DM call, voice call, controls\<close>

text \<open>
  C2 (empty narration). The code skips the voice request, but it does not clear the
  loading indicator on this path: an adventure started with a response whose narration
  is empty sends the DM request only, commits the response, and is left with
  \<open>loading\<close> set, so every action control is disabled (also once an action is typed),
  no audio plays that could end or be skipped, and no error is shown.
\<close>

theorem empty_narration_leaves_loading:
  "dm_narration silentResponse = [] \<and> \<not> game_over silentResponse
   \<and> dmResponse (startAdventure ''k3j9x0q2a'' (answers (Resolved silentResponse) (Resolved mp3))
        initial) = Some silentResponse
   \<and> length (sent (startAdventure ''k3j9x0q2a''
        (answers (Resolved silentResponse) (Resolved mp3)) initial)) = 1
   \<and> loading (startAdventure ''k3j9x0q2a'' (answers (Resolved silentResponse) (Resolved mp3))
        initial)
   \<and> \<not> enabled (ClickSuggested 0)
        (startAdventure ''k3j9x0q2a'' (answers (Resolved silentResponse) (Resolved mp3))
           initial)
   \<and> \<not> enabled ClickSend
        ((startAdventure ''k3j9x0q2a'' (answers (Resolved silentResponse) (Resolved mp3))
           initial)\<lparr>customAction := ''Rest''\<rparr>)
   \<and> \<not> enabled AudioEnded
        (startAdventure ''k3j9x0q2a'' (answers (Resolved silentResponse) (Resolved mp3))
           initial)
   \<and> \<not> enabled ClickSkip
        (startAdventure ''k3j9x0q2a'' (answers (Resolved silentResponse) (Resolved mp3))
           initial)"
  by (simp add: startAdventure_def Let_def getDMResponse_silent answers_def initial_def
      silentResponse_def actionsRendered_def)

text \<open>
  C5 (failed DM call). When the DM request is rejected, whatever was thrown, the
  \<open>GameState\<close> and the \<open>DMResponse\<close> of the view are the ones from before the call
  (so \<open>turn_count\<close> is not incremented), for \<open>getDMResponse\<close> and for \<open>handleAction\<close>
  alike; the loading indicator is cleared; and the error of the view is the message that
  the \<^verbatim>\<open>catch\<close> clause takes from what was thrown. The request is made by axios: for
  an error of axios, as a timeout is, that message is the prefix of the client followed
  by the message of axios, so it is non-empty and the error panel is shown.
\<close>

theorem failed_dm_call_keeps_session:
  assumes "dm_post w = Rejected t"
  shows "gameState (getDMResponse w state action v) = gameState v
    \<and> dmResponse (getDMResponse w state action v) = dmResponse v
    \<and> gameState (handleAction w a v) = gameState v
    \<and> dmResponse (handleAction w a v) = dmResponse v
    \<and> loading (getDMResponse w state action v) = False
    \<and> error (getDMResponse w state action v) =
        Some (case t of AxiosError m \<Rightarrow> ''Failed to get DM response: '' @ m
                      | ErrorObject m \<Rightarrow> m | NonError \<Rightarrow> ''Failed to get DM response'')
    \<and> (t = AxiosError m \<longrightarrow>
         error (getDMResponse w state action v) = Some (''Failed to get DM response: '' @ m)
         \<and> error (getDMResponse w state action v) \<noteq> Some []
         \<and> errorDisplayed (getDMResponse w state action v))"
  using assms
  by (simp add: getDMResponse_rejected handleAction_def errorDisplayed_def
      split: thrown.split option.split)

theorem failed_dm_call_timeout:
  "dm_post (answers (Rejected (AxiosError ''timeout'')) (Resolved mp3))
     = Rejected (AxiosError ''timeout'')
   \<and> gameState (getDMResponse (answers (Rejected (AxiosError ''timeout'')) (Resolved mp3))
        warrior (Some ''Rest'') inGame) = Some warrior
   \<and> dmResponse (getDMResponse (answers (Rejected (AxiosError ''timeout'')) (Resolved mp3))
        warrior (Some ''Rest'') inGame) = Some shieldResponse
   \<and> error (getDMResponse (answers (Rejected (AxiosError ''timeout'')) (Resolved mp3))
        warrior (Some ''Rest'') inGame) = Some ''Failed to get DM response: timeout''
   \<and> errorDisplayed (getDMResponse (answers (Rejected (AxiosError ''timeout'')) (Resolved mp3))
        warrior (Some ''Rest'') inGame)
   \<and> \<not> loading (getDMResponse (answers (Rejected (AxiosError ''timeout'')) (Resolved mp3))
        warrior (Some ''Rest'') inGame)"
proof -
  have h: "dm_post (answers (Rejected (AxiosError ''timeout'')) (Resolved mp3))
     = Rejected (AxiosError ''timeout'')"
    by (simp add: answers_def)
  from failed_dm_call_keeps_session [OF h, of warrior "Some ''Rest''" inGame "''Rest''"
      "''timeout''"] h
  show ?thesis by (simp add: inGame_def)
qed



section \<open>Runs of the view\<close>

text \<open>
  While the latest DM response has \<open>game_over\<close> set, no action control is enabled; a
  reset is available in the game view and leads to the start form; and as long as no DM
  call is pending, nothing but a reset changes the response or sends a request.
\<close>

lemma game_over_controls_off:
  assumes "dmResponse v = Some r" "game_over r"
  shows "\<not> enabled (ClickSuggested idx) v \<and> \<not> enabled PressEnter v
     \<and> \<not> enabled ClickSend v \<and> \<not> enabled (TypeCustomAction s) v"
  using assms by (simp add: actionsRendered_def)

lemma reset_to_start_form:
  assumes "gameState (view \<sigma>) \<noteq> None"
  shows "enabled ClickReset (view \<sigma>)
     \<and> gameState (view (step (ViewEvent ClickReset) \<sigma>)) = None
     \<and> dmResponse (view (step (ViewEvent ClickReset) \<sigma>)) = None
     \<and> enabled (ClickStart seed) (view (step (ViewEvent ClickReset) \<sigma>))"
  using assms by (simp add: resetGame_def)

lemma playNarration_answer_keeps:
  "gameState (playNarration_answer post mounted v) = gameState v"
  "dmResponse (playNarration_answer post mounted v) = dmResponse v"
  "sent (playNarration_answer post mounted v) = sent v"
  by (simp_all add: playNarration_answer_def split: sum.split)

lemma game_over_step_quiet:
  assumes "awaitingDM \<sigma> = []" "gameState (view \<sigma>) \<noteq> None"
    "dmResponse (view \<sigma>) = Some r" "game_over r" "e \<noteq> ViewEvent ClickReset"
  shows "awaitingDM (step e \<sigma>) = [] \<and> gameState (view (step e \<sigma>)) \<noteq> None
     \<and> dmResponse (view (step e \<sigma>)) = Some r \<and> sent (view (step e \<sigma>)) = sent (view \<sigma>)"
proof (cases e)
  case (ViewEvent x)
  from assms(2) obtain s where s: "gameState (view \<sigma>) = Some s" by auto
  show ?thesis
    using ViewEvent s assms(1,3,4,5)
    by (cases x) (simp_all add: actionsRendered_def skipAudio_def onended_def)
next
  case (DMSettles k post)
  then show ?thesis using assms by simp
next
  case (VoiceSettles k post mounted)
  then show ?thesis using assms by (simp add: playNarration_answer_keeps)
qed

lemma game_over_run_quiet:
  assumes "ViewEvent ClickReset \<notin> set es" "awaitingDM \<sigma> = []" "gameState (view \<sigma>) \<noteq> None"
    "dmResponse (view \<sigma>) = Some r" "game_over r"
  shows "dmResponse (view (run es \<sigma>)) = Some r \<and> sent (view (run es \<sigma>)) = sent (view \<sigma>)"
  using assms
proof (induction es arbitrary: \<sigma>)
  case Nil
  then show ?case by simp
next
  case (Cons e es)
  have e: "e \<noteq> ViewEvent ClickReset" and es: "ViewEvent ClickReset \<notin> set es"
    using Cons.prems(1) by auto
  from game_over_step_quiet [OF Cons.prems(2,3,4,5) e]
  have s: "awaitingDM (step e \<sigma>) = []" "gameState (view (step e \<sigma>)) \<noteq> None"
    "dmResponse (view (step e \<sigma>)) = Some r" "sent (view (step e \<sigma>)) = sent (view \<sigma>)"
    by simp_all
  from Cons.IH [OF es s(1,2,3) Cons.prems(5)] s(4) show ?case by simp
qed

text \<open>
  C7 (game over). The code lets a DM request go out after a game-over response with no
  reset in between, when a DM call is still pending from before an earlier reset. An
  adventure is begun and given up with ``New Game'' while its first request is pending;
  a second adventure is begun, its response ends the game, its narration is played to
  the end: the latest response has \<open>game_over\<close> set and no suggested action can be
  clicked. Then the answer to the first request arrives: the rest of that call replaces
  the response and the game state, the action controls are rendered and enabled, and a
  click on a suggested action sends a DM request, for the state of the adventure that
  was given up.
\<close>

theorem stale_answer_after_game_over:
  "dmResponse (view (run (abandoned @ [DMSettles 1 (Resolved finalResponse),
        VoiceSettles 0 (Resolved mp3) True, ViewEvent AudioEnded]) start))
     = Some finalResponse
   \<and> game_over finalResponse
   \<and> \<not> enabled (ClickSuggested 0)
        (view (run (abandoned @ [DMSettles 1 (Resolved finalResponse),
           VoiceSettles 0 (Resolved mp3) True, ViewEvent AudioEnded]) start))
   \<and> ViewEvent ClickReset \<notin> set [DMSettles 0 (Resolved shieldResponse),
        ViewEvent (ClickSuggested 0)]
   \<and> enabled (ClickSuggested 0)
        (view (run (abandoned @ [DMSettles 1 (Resolved finalResponse),
           VoiceSettles 0 (Resolved mp3) True, ViewEvent AudioEnded,
           DMSettles 0 (Resolved shieldResponse)]) start))
   \<and> length (sent (view (run (abandoned @ [DMSettles 1 (Resolved finalResponse),
           VoiceSettles 0 (Resolved mp3) True, ViewEvent AudioEnded]) start))) = 3
   \<and> last (sent (view (run (abandoned @ [DMSettles 1 (Resolved finalResponse),
           VoiceSettles 0 (Resolved mp3) True, ViewEvent AudioEnded,
           DMSettles 0 (Resolved shieldResponse), ViewEvent (ClickSuggested 0)]) start)))
     = DM_Request
         \<lparr>campaign_seed = ''k3j9x0q2a'', player_name = ''Aragorn'', player_class = ''Rogue'',
            inventory = [''Shield''], hp = 25, location = ''Starting Point'',
            last_scene = ''Found a shield'', turn_count = 1\<rparr>
         (Some ''Look around'')"
  by (simp add: abandoned_def start_def initial_def startAdventure_call_def
      handleAction_call_def getDMResponse_call_def getDMResponse_answer_def
      gameClient_getDMResponse_def playNarration_call_def playNarration_answer_def
      gameClient_getVoiceNarration_def updatedState_def js_or_def resetGame_def onended_def
      actionsRendered_def dropAt_def suggested_def Let_def shieldResponse_def
      shieldUpdates_def finalResponse_def)

text \<open>Applying a delta leaves the three fields fixed at the start of an adventure alone.\<close>

lemma updatedState_identity_fields:
  "campaign_seed (updatedState s r) = campaign_seed s
   \<and> player_name (updatedState s r) = player_name s
   \<and> player_class (updatedState s r) = player_class s"
  by (simp add: updatedState_def)

text \<open>
  C9 (fields fixed at the start). The update itself keeps \<open>campaign_seed\<close>,
  \<open>player_name\<close> and \<open>player_class\<close>, but the code does not keep them the same across the
  states of a session: the rest of a call commits the update of the state the call was
  begun with, not of the state of the view. With the first adventure given up while its
  request is pending and a second one running as Gimli under seed \<open>seedB\<close>, the answer
  to the first request, with no reset in between, puts the game state of the first
  adventure in place: seed \<open>k3j9x0q2a\<close>, name Aragorn.
\<close>

theorem stale_answer_changes_identity:
  "map_option campaign_seed (gameState (view (run (abandoned @
        [DMSettles 1 (Resolved shieldResponse)]) start))) = Some ''seedB''
   \<and> map_option player_name (gameState (view (run (abandoned @
        [DMSettles 1 (Resolved shieldResponse)]) start))) = Some ''Gimli''
   \<and> ViewEvent ClickReset \<notin> set [DMSettles 0 (Resolved silentResponse)]
   \<and> map_option campaign_seed (gameState (view (run (abandoned @
        [DMSettles 1 (Resolved shieldResponse), DMSettles 0 (Resolved silentResponse)]) start)))
       = Some ''k3j9x0q2a''
   \<and> map_option player_name (gameState (view (run (abandoned @
        [DMSettles 1 (Resolved shieldResponse), DMSettles 0 (Resolved silentResponse)]) start)))
       = Some ''Aragorn''"
  by (simp add: abandoned_def start_def initial_def startAdventure_call_def
      getDMResponse_call_def getDMResponse_answer_def gameClient_getDMResponse_def
      playNarration_call_def updatedState_def js_or_def resetGame_def dropAt_def Let_def
      shieldResponse_def shieldUpdates_def silentResponse_def)

end
